theory Spec2Isabelle
  imports Main "HOL-Library.Word"
begin

unbundle bit_operations_syntax

section \<open>Data model of \<open>SshClient\<close> (src/qtssh/sshclient.cpp)\<close>

text \<open>
  Modelled from the spec: the enumeration \<open>SshClient::SshState\<close> is declared in
  sshclient.h, which is not among the sources; its twelve values are the states of the
  table in section 4.1 of the specification, and every one of them is a \<open>case\<close> label
  of the \<open>switch\<close> in \<open>SshClient::_ssh_processEvent\<close>.
\<close>

datatype SshState =
    Unconnected
  | SocketConnection
  | WaitingSocketConnection
  | Initialize
  | HandShake
  | GetAuthenticationMethodes
  | Authentication
  | Ready
  | DisconnectingChannel
  | DisconnectingSession
  | FreeSession
  | Error

text \<open>\<open>SshKey::Type\<close>, the three labels of the \<open>switch\<close> in \<open>addKnownHost\<close>.\<close>

datatype SshKeyType = Rsa | Dss | UnknownType

record SshKey =
  sshkey_type :: SshKeyType
  sshkey_hash :: string
  sshkey_key :: string

text \<open>\<open>QAbstractSocket::SocketState\<close>, as answered by \<open>m_socket.state()\<close>.\<close>

datatype SocketState =
    UnconnectedState
  | HostLookupState
  | ConnectingState
  | ConnectedState
  | BoundState
  | ListeningState
  | ClosingState

text \<open>
  Pointers (\<open>void *\<close> identifiers, \<open>SshChannel *\<close>, the libssh2 handles) are addresses;
  \<open>nullptr\<close> is address 0.
\<close>

type_synonym ptr = nat

definition nullptr :: ptr where
  "nullptr = 0"

text \<open>A \<open>QTimer\<close>: whether it runs, its interval in milliseconds, the single-shot flag.\<close>

record QTimer =
  active :: bool
  interval :: int
  singleShot :: bool

definition timer_start :: "int \<Rightarrow> QTimer \<Rightarrow> QTimer" where
  "timer_start msec t = t\<lparr>active := True, interval := msec\<rparr>"

definition timer_stop :: "QTimer \<Rightarrow> QTimer" where
  "timer_stop t = t\<lparr>active := False\<rparr>"

text \<open>
  What the client does to its collaborators is recorded in the order it happens: the
  calls on \<open>m_socket\<close>, the channels asked to \<open>close()\<close>, the Qt signals emitted, and the
  messages logged. The logging category is created with threshold \<open>QtWarningMsg\<close>, so the
  \<open>qCDebug\<close> lines print nothing and only warnings and criticals are recorded.
\<close>

datatype socket_call = SockConnectToHost string "16 word" | SockDisconnectFromHost

datatype signal =
    sshEvent
  | sshStateChanged SshState
  | sshReady
  | sshDataReceived
  | sshDisconnected
  | sshError

datatype severity = Warning | Critical

record SshClient =
  m_sshState :: SshState
  m_authenticationMethodes :: "string list"
  m_hostname :: string
  m_port :: "16 word"
  m_username :: string
  m_knowhostFiles :: string
  m_session :: ptr
  m_knownHosts :: ptr
  m_hostKey :: SshKey
  m_lastProofOfLive :: int
  m_channels :: "ptr list"
  channelCreationInProgress :: bool
  currentLockerForChannelCreation :: ptr
  m_keepalive :: QTimer
  m_connectionTimeout :: QTimer
  out_socket :: "socket_call list"
  out_closed :: "ptr list"
  out_signals :: "signal list"
  out_log :: "(severity \<times> string) list"

text \<open>
  Faults: places where the C++ has no defined result. \<open>QList::first()\<close> on an empty list
  (it asserts \<open>!isEmpty()\<close>), \<open>QMutex::unlock()\<close> on a mutex that is not locked, and a
  failed \<open>Q_ASSERT\<close>.
\<close>

datatype fault = FirstOfEmptyList | UnlockOfUnlockedMutex | AssertionFailed

definition emit :: "signal \<Rightarrow> SshClient \<Rightarrow> SshClient" where
  "emit sg s = s\<lparr>out_signals := out_signals s @ [sg]\<rparr>"

definition qlog :: "severity \<Rightarrow> string \<Rightarrow> SshClient \<Rightarrow> SshClient" where
  "qlog sev msg s = s\<lparr>out_log := out_log s @ [(sev, msg)]\<rparr>"

definition socket_connectToHost :: "string \<Rightarrow> 16 word \<Rightarrow> SshClient \<Rightarrow> SshClient" where
  "socket_connectToHost h p s = s\<lparr>out_socket := out_socket s @ [SockConnectToHost h p]\<rparr>"

definition sshState :: "SshClient \<Rightarrow> SshState" where
  "sshState s = m_sshState s"

definition setSshState :: "SshState \<Rightarrow> SshClient \<Rightarrow> SshClient" where
  "setSshState st s =
     (if m_sshState s \<noteq> st
      then emit (sshStateChanged st) (s\<lparr>m_sshState := st\<rparr>)
      else s)"

section \<open>The channel-creation arbiter\<close>

text \<open>\<open>QMutex::tryLock()\<close>: takes the mutex when it is free, never waits.\<close>

definition tryLock :: "SshClient \<Rightarrow> bool \<times> SshClient" where
  "tryLock s =
     (if channelCreationInProgress s then (False, s)
      else (True, s\<lparr>channelCreationInProgress := True\<rparr>))"

definition takeChannelCreationMutex :: "ptr \<Rightarrow> SshClient \<Rightarrow> bool \<times> SshClient" where
  "takeChannelCreationMutex identifier s =
     (let (locked, s1) = tryLock s in
      if \<not> locked \<and> currentLockerForChannelCreation s1 \<noteq> identifier
      then (False, s1)
      else (True, s1\<lparr>currentLockerForChannelCreation := identifier\<rparr>))"

definition releaseChannelCreationMutex :: "ptr \<Rightarrow> SshClient \<Rightarrow> fault + SshClient" where
  "releaseChannelCreationMutex identifier s =
     (if currentLockerForChannelCreation s = identifier
      then (if channelCreationInProgress s
            then Inr (s\<lparr>channelCreationInProgress := False,
                        currentLockerForChannelCreation := nullptr\<rparr>)
            else Inl UnlockOfUnlockedMutex)
      else Inr (qlog Critical ''Trying to release channel mutex but it doesn't host it'' s))"

text \<open>
  A sequence of calls on the arbiter, stopped by the first fault. Beside the client it
  carries the set of holders: the identities whose last \<open>takeChannelCreationMutex\<close>
  returned true and that have not called \<open>releaseChannelCreationMutex\<close> since.
\<close>

datatype arbiter_call = Acquire ptr | Release ptr

fun arbiter_run :: "arbiter_call list \<Rightarrow> SshClient \<times> ptr set \<Rightarrow> fault + SshClient \<times> ptr set" where
  "arbiter_run [] (s, H) = Inr (s, H)"
| "arbiter_run (Acquire a # cs) (s, H) =
     (let (ok, s') = takeChannelCreationMutex a s
      in arbiter_run cs (s', if ok then insert a H else H))"
| "arbiter_run (Release a # cs) (s, H) =
     (case releaseChannelCreationMutex a s of
        Inl f \<Rightarrow> Inl f
      | Inr s' \<Rightarrow> arbiter_run cs (s', H - {a}))"

text \<open>An identity owns the lock when the mutex is held and the identity is the recorded locker.\<close>

definition owns :: "SshClient \<Rightarrow> ptr \<Rightarrow> bool" where
  "owns s a = (channelCreationInProgress s \<and> currentLockerForChannelCreation s = a)"

text \<open>The arbiter as the constructor leaves it: mutex free, no locker recorded.\<close>

definition arbiter_free :: "SshClient \<Rightarrow> bool" where
  "arbiter_free s = (\<not> channelCreationInProgress s \<and> currentLockerForChannelCreation s = nullptr)"

text \<open>The client as the constructor leaves it.\<close>

definition new_client :: SshClient where
  "new_client =
     \<lparr> m_sshState = Unconnected,
       m_authenticationMethodes = [],
       m_hostname = [],
       m_port = 0,
       m_username = [],
       m_knowhostFiles = [],
       m_session = nullptr,
       m_knownHosts = nullptr,
       m_hostKey = \<lparr> sshkey_type = UnknownType, sshkey_hash = [], sshkey_key = [] \<rparr>,
       m_lastProofOfLive = 0,
       m_channels = [],
       channelCreationInProgress = False,
       currentLockerForChannelCreation = nullptr,
       m_keepalive = \<lparr> active = False, interval = 0, singleShot = False \<rparr>,
       m_connectionTimeout = \<lparr> active = False, interval = 0, singleShot = False \<rparr>,
       out_socket = [],
       out_closed = [],
       out_signals = [],
       out_log = [] \<rparr>"

section \<open>The collaborators\<close>

text \<open>
  Constants of libssh2.h, the header of the embedded protocol engine (an external
  library): the error codes and the host-key and known-host type codes the client
  compares against or passes on.
\<close>

definition LIBSSH2_ERROR_EAGAIN :: int where
  "LIBSSH2_ERROR_EAGAIN = - 37"

definition LIBSSH2_ERROR_SOCKET_SEND :: int where
  "LIBSSH2_ERROR_SOCKET_SEND = - 7"

definition LIBSSH2_HOSTKEY_TYPE_RSA :: int where
  "LIBSSH2_HOSTKEY_TYPE_RSA = 1"

definition LIBSSH2_HOSTKEY_TYPE_DSS :: int where
  "LIBSSH2_HOSTKEY_TYPE_DSS = 2"

definition LIBSSH2_KNOWNHOST_TYPE_PLAIN :: int where
  "LIBSSH2_KNOWNHOST_TYPE_PLAIN = 1"

definition LIBSSH2_KNOWNHOST_KEYENC_RAW :: int where
  "LIBSSH2_KNOWNHOST_KEYENC_RAW = push_bit 16 1"

definition LIBSSH2_KNOWNHOST_KEY_SSHRSA :: int where
  "LIBSSH2_KNOWNHOST_KEY_SSHRSA = push_bit 18 2"

definition LIBSSH2_KNOWNHOST_KEY_SSHDSS :: int where
  "LIBSSH2_KNOWNHOST_KEY_SSHDSS = push_bit 18 3"

definition MAX_LOST_KEEP_ALIVE :: int where
  "MAX_LOST_KEEP_ALIVE = 6"

definition ConnectionTimeout :: int where
  "ConnectionTimeout = 60000"

text \<open>
  What the protocol engine, the socket and the clock answer while one slot of the client
  runs. Each field is the answer of the call of that name. \<open>userauth_attempt k\<close> is
  the answer to the k-th authentication attempt of the pass
  (\<open>libssh2_userauth_publickey_frommemory\<close> or \<open>libssh2_userauth_password_ex\<close>,
  counted from 0 in the order they are called). \<open>keepalive_send\<close> is the return code of
  \<open>libssh2_keepalive_send\<close> paired with the value left in its out-parameter, the
  seconds until the next keepalive is due. \<open>session_hostkey\<close> is the key with its type
  code, \<open>None\<close> for a null pointer, as is \<open>userauth_list\<close>. \<open>socket_state\<close> is what
  \<open>m_socket.state()\<close> answers. \<open>disconnected_at_once\<close> says that a call of
  \<open>m_socket.disconnectFromHost()\<close> finds the socket open with nothing left to write,
  closes it and emits \<open>disconnected()\<close> before it returns; otherwise the signal comes
  later, as a notification of its own, or not at all.
\<close>

record env =
  session_init_ex :: ptr
  knownhost_init :: ptr
  session_handshake :: int
  session_hostkey :: "(string \<times> int) option"
  hostkey_hash :: string
  userauth_list :: "string option"
  session_last_error :: int
  userauth_attempt :: "nat \<Rightarrow> int"
  userauth_authenticated :: bool
  session_disconnect_ex :: int
  session_free :: int
  keepalive_send :: "int \<times> int"
  knownhost_add :: "string \<Rightarrow> string \<Rightarrow> int \<Rightarrow> int"
  knownhost_writefile :: "string \<Rightarrow> int"
  socket_state :: SocketState
  disconnected_at_once :: bool
  currentMSecsSinceEpoch :: int

text \<open>
  The slot \<open>_connection_socketDisconnected\<close>. The constructor connects
  \<open>QTcpSocket::disconnected\<close> to it with the default connection type, which between
  objects of one thread is a direct call: the slot runs inside the emission.
\<close>

definition connection_socketDisconnected :: "SshClient \<Rightarrow> SshClient" where
  "connection_socketDisconnected s =
     emit sshEvent (setSshState FreeSession (qlog Warning '': ssh socket disconnected'' s))"

text \<open>
  \<open>m_socket.disconnectFromHost()\<close>: the call is recorded, and when the socket emits
  \<open>disconnected()\<close> from inside the call the slot above runs before the call returns.
\<close>

definition socket_disconnectFromHost :: "env \<Rightarrow> SshClient \<Rightarrow> SshClient" where
  "socket_disconnectFromHost e s =
     (let s1 = s\<lparr>out_socket := out_socket s @ [SockDisconnectFromHost]\<rparr>
      in if disconnected_at_once e then connection_socketDisconnected s1 else s1)"

section \<open>Connect and disconnect requests\<close>

definition connectToHost ::
    "string \<Rightarrow> string \<Rightarrow> 16 word \<Rightarrow> string list \<Rightarrow> SshClient \<Rightarrow> int \<times> SshClient" where
  "connectToHost user host port methodes s =
     (if sshState s \<noteq> Unconnected
      then (0, qlog Critical ''Allready connected'' s)
      else (0, emit sshEvent (setSshState SocketConnection
                 (s\<lparr>m_authenticationMethodes := methodes,
                    m_hostname := host,
                    m_port := port,
                    m_username := user\<rparr>))))"

definition disconnectFromHost :: "SshClient \<Rightarrow> SshClient" where
  "disconnectFromHost s =
     (if m_sshState s = Unconnected then s
      else emit sshEvent
             (if length (m_channels s) = 0
              then setSshState DisconnectingSession s
              else setSshState DisconnectingChannel s))"

section \<open>Known hosts\<close>

text \<open>C++ converts an \<open>int\<close> to \<open>bool\<close> as "not zero".\<close>

definition int_to_bool :: "int \<Rightarrow> bool" where
  "int_to_bool r = (r \<noteq> 0)"

definition saveKnownHosts :: "env \<Rightarrow> string \<Rightarrow> SshClient \<Rightarrow> bool" where
  "saveKnownHosts e file s = (knownhost_writefile e file = 0)"

definition addKnownHost :: "env \<Rightarrow> string \<Rightarrow> SshKey \<Rightarrow> SshClient \<Rightarrow> bool" where
  "addKnownHost e hostname key s =
     (let typemask = LIBSSH2_KNOWNHOST_TYPE_PLAIN OR LIBSSH2_KNOWNHOST_KEYENC_RAW in
      case sshkey_type key of
        Dss \<Rightarrow> int_to_bool (knownhost_add e hostname (sshkey_key key)
                               (typemask OR LIBSSH2_KNOWNHOST_KEY_SSHDSS))
      | Rsa \<Rightarrow> int_to_bool (knownhost_add e hostname (sshkey_key key)
                               (typemask OR LIBSSH2_KNOWNHOST_KEY_SSHRSA))
      | UnknownType \<Rightarrow> False)"

section \<open>Keepalive\<close>

text \<open>
  \<open>int\<close> is 32 bits wide and \<open>qint64\<close> 64 bits. Their arithmetic is written on the
  integers with the two's-complement wrap-around spelled out (signed overflow has no
  defined result in C++; the wrap-around is what the usual targets do). Division
  truncates towards zero.
\<close>

definition int32 :: "int \<Rightarrow> int" where
  "int32 x = (x + 2 ^ 31) mod 2 ^ 32 - 2 ^ 31"

definition int64 :: "int \<Rightarrow> int" where
  "int64 x = (x + 2 ^ 63) mod 2 ^ 64 - 2 ^ 63"

definition cdiv :: "int \<Rightarrow> int \<Rightarrow> int" where
  "cdiv a b = (if (a < 0) = (b < 0) then \<bar>a\<bar> div \<bar>b\<bar> else - (\<bar>a\<bar> div \<bar>b\<bar>))"

definition sendKeepAlive :: "env \<Rightarrow> SshClient \<Rightarrow> SshClient" where
  "sendKeepAlive e s =
     (if m_session s \<noteq> nullptr then
        (let (ret, keepalive) = keepalive_send e in
         if ret = LIBSSH2_ERROR_SOCKET_SEND then
           socket_disconnectFromHost e (qlog Warning '': Connection I/O error !!!'' s)
         else if cdiv (int64 (currentMSecsSinceEpoch e - m_lastProofOfLive s)) 1000
                   > int32 (MAX_LOST_KEEP_ALIVE * keepalive) then
           socket_disconnectFromHost e (qlog Warning '': Connection lost !!!'' s)
         else
           (let keepalive1 = int32 (keepalive - 1);
                keepalive2 = (if keepalive1 < 2 then 2 else keepalive1)
            in s\<lparr>m_keepalive := timer_start (int32 (keepalive2 * 1000)) (m_keepalive s)\<rparr>))
      else s)"

section \<open>The channel registry\<close>

text \<open>\<open>QList::removeOne\<close> removes the first occurrence, \<open>append\<close> adds at the end.\<close>

definition unregisterChannel :: "ptr \<Rightarrow> SshClient \<Rightarrow> SshClient" where
  "unregisterChannel channel s =
     (let s1 = s\<lparr>m_channels := remove1 channel (m_channels s)\<rparr> in
      if sshState s1 = DisconnectingChannel \<and> length (m_channels s1) = 0
      then emit sshEvent
             (setSshState DisconnectingSession
                (s1\<lparr>m_keepalive := timer_stop (m_keepalive s1)\<rparr>))
      else s1)"

definition registerChannel :: "ptr \<Rightarrow> SshClient \<Rightarrow> SshClient" where
  "registerChannel channel s = s\<lparr>m_channels := m_channels s @ [channel]\<rparr>"

section \<open>Transport notifications\<close>




section \<open>The session state machine: \<open>_ssh_processEvent\<close>\<close>

text \<open>\<open>QList::first()\<close>: the first element; the list must not be empty.\<close>

definition first :: "'a list \<Rightarrow> fault + 'a" where
  "first xs = (case xs of [] \<Rightarrow> Inl FirstOfEmptyList | x # _ \<Rightarrow> Inr x)"

text \<open>
  \<open>QByteArray::split(sep)\<close>: the pieces between the separators, empty pieces kept; an
  empty array gives one empty piece.
\<close>

fun split :: "char \<Rightarrow> string \<Rightarrow> string list" where
  "split sep [] = [] # []"
| "split sep (c # cs) =
     (if c = sep then [] # split sep cs
      else (case split sep cs of
              [] \<Rightarrow> [c] # []
            | w # ws \<Rightarrow> (c # w) # ws))"

text \<open>How a block of the authentication loop ends: the function returns, the loop is
  left by \<open>break\<close>, or control goes on to the next statement.\<close>

datatype ctl = CtlReturn | CtlBreak | CtlNext

text \<open>The body of \<open>if(m_authenticationMethodes.first() == "publickey")\<close>; \<open>k\<close> counts the
  authentication attempts made so far in this pass.\<close>

definition publickey_block :: "env \<Rightarrow> nat \<Rightarrow> SshClient \<Rightarrow> ctl \<times> nat \<times> SshClient" where
  "publickey_block e k s =
     (let ret = userauth_attempt e k in
      if ret = LIBSSH2_ERROR_EAGAIN then (CtlReturn, Suc k, s)
      else
        (let s1 = (if ret < 0
                   then (qlog Warning '': Authentication with publickey failed:'' s)
                          \<lparr>m_authenticationMethodes := tl (m_authenticationMethodes s)\<rparr>
                   else s)
         in if ret = 0
            then (CtlBreak, Suc k,
                  setSshState Ready (qlog Warning '': Authenticated with publickey'' s1))
            else (CtlNext, Suc k, s1)))"

text \<open>The body of \<open>if(m_authenticationMethodes.first() == "password")\<close>.\<close>

definition password_block :: "env \<Rightarrow> nat \<Rightarrow> SshClient \<Rightarrow> ctl \<times> nat \<times> SshClient" where
  "password_block e k s =
     (let ret = userauth_attempt e k in
      if ret = LIBSSH2_ERROR_EAGAIN then (CtlReturn, Suc k, s)
      else if ret < 0 then
        (CtlReturn, Suc k,
         (qlog Warning '': Authentication with password failed'' s)
           \<lparr>m_authenticationMethodes := tl (m_authenticationMethodes s)\<rparr>)
      else if ret = 0 then (CtlBreak, Suc k, setSshState Ready s)
      else (CtlNext, Suc k, s))"

text \<open>One turn of the body of \<open>while(m_authenticationMethodes.length() != 0)\<close>: the
  publickey block, then the password block, each guarded by its own call of \<open>first()\<close>.\<close>

definition auth_iteration :: "env \<Rightarrow> nat \<Rightarrow> SshClient \<Rightarrow> fault + ctl \<times> nat \<times> SshClient" where
  "auth_iteration e k s =
     (case first (m_authenticationMethodes s) of
        Inl f \<Rightarrow> Inl f
      | Inr m1 \<Rightarrow>
          (let (c1, k1, s1) = (if m1 = ''publickey'' then publickey_block e k s
                               else (CtlNext, k, s))
           in if c1 \<noteq> CtlNext then Inr (c1, k1, s1)
              else (case first (m_authenticationMethodes s1) of
                      Inl f \<Rightarrow> Inl f
                    | Inr m2 \<Rightarrow>
                        (if m2 = ''password'' then Inr (password_block e k1 s1)
                         else Inr (CtlNext, k1, s1)))))"

text \<open>
  The \<open>while\<close> loop. Nothing bounds the number of its turns, so its result is an option:
  \<open>None\<close> is the loop that never ends. Otherwise it ends in a fault, in \<open>CtlReturn\<close>
  (the function returned from inside the loop) or in \<open>CtlBreak\<close> (the loop was left, by
  \<open>break\<close> or because the list is empty); the number of authentication attempts made
  so far comes with the client.
\<close>

partial_function (option) authentication_loop ::
    "env \<Rightarrow> nat \<Rightarrow> SshClient \<Rightarrow> (fault + ctl \<times> nat \<times> SshClient) option" where
  "authentication_loop e k s =
     (if length (m_authenticationMethodes s) \<noteq> 0 then
        (case auth_iteration e k s of
           Inl f \<Rightarrow> Some (Inl f)
         | Inr (c, k', s') \<Rightarrow>
             (if c = CtlNext then authentication_loop e k' s'
              else Some (Inr (c, k', s'))))
      else Some (Inr (CtlBreak, k, s)))"

declare authentication_loop.simps [code]

definition ready_step :: "env \<Rightarrow> SshClient \<Rightarrow> SshClient" where
  "ready_step e s = emit sshDataReceived (s\<lparr>m_lastProofOfLive := currentMSecsSinceEpoch e\<rparr>)"

text \<open>\<open>case SshState::Authentication\<close>: the loop, then the check of
  \<open>libssh2_userauth_authenticated\<close>, falling through to \<open>Ready\<close> on success.\<close>

definition after_loop :: "env \<Rightarrow> ctl \<times> nat \<times> SshClient \<Rightarrow> SshClient" where
  "after_loop e r =
     (case r of (c, k, s1) \<Rightarrow>
        if c = CtlReturn then s1
        else if userauth_authenticated e then
          ready_step e (emit sshReady (setSshState Ready
            (s1\<lparr>m_connectionTimeout := timer_stop (m_connectionTimeout s1),
                m_keepalive := timer_start 1000 ((m_keepalive s1)\<lparr>singleShot := True\<rparr>)\<rparr>)))
        else setSshState Error (qlog Warning '': Authentication failed'' s1))"

definition authentication_step :: "env \<Rightarrow> SshClient \<Rightarrow> (fault + SshClient) option" where
  "authentication_step e s =
     (case authentication_loop e 0 s of
        None \<Rightarrow> None
      | Some (Inl f) \<Rightarrow> Some (Inl f)
      | Some (Inr r) \<Rightarrow> Some (Inr (after_loop e r)))"

text \<open>\<open>case SshState::GetAuthenticationMethodes\<close>.\<close>

definition getAuthenticationMethodes_step :: "env \<Rightarrow> SshClient \<Rightarrow> (fault + SshClient) option" where
  "getAuthenticationMethodes_step e s =
     (if length (m_authenticationMethodes s) = 0 then
        (case userauth_list e of
           None \<Rightarrow>
             (let ret = session_last_error e in
              if ret = LIBSSH2_ERROR_EAGAIN then Some (Inr s)
              else Some (Inr (socket_disconnectFromHost e (setSshState Error s))))
         | Some alist \<Rightarrow>
             authentication_step e
               (setSshState Authentication
                  (s\<lparr>m_authenticationMethodes := split CHR '','' alist\<rparr>)))
      else authentication_step e (setSshState Authentication s))"

text \<open>The host key record filled in after a successful handshake: the type code mapped
  to \<open>SshKey::Type\<close>, the 16 bytes of the MD5 hash, the key bytes.\<close>

definition captured_hostKey :: "env \<Rightarrow> string \<Rightarrow> int \<Rightarrow> SshKey" where
  "captured_hostKey e fingerprint type =
     \<lparr> sshkey_type =
         (if type = LIBSSH2_HOSTKEY_TYPE_RSA then Rsa
          else if type = LIBSSH2_HOSTKEY_TYPE_DSS then Dss
          else UnknownType),
       sshkey_hash = take 16 (hostkey_hash e),
       sshkey_key = fingerprint \<rparr>"

text \<open>\<open>case SshState::HandShake\<close>. The result of \<open>libssh2_knownhost_check\<close> is not looked at.\<close>

definition handShake_step :: "env \<Rightarrow> SshClient \<Rightarrow> (fault + SshClient) option" where
  "handShake_step e s =
     (let ret = session_handshake e in
      if ret = LIBSSH2_ERROR_EAGAIN then Some (Inr s)
      else if ret \<noteq> 0 then
        Some (Inr (socket_disconnectFromHost e
                (setSshState Error (qlog Critical ''Handshake error'' s))))
      else
        (case session_hostkey e of
           None \<Rightarrow>
             Some (Inr (socket_disconnectFromHost e
                     (setSshState Error (qlog Critical ''Fingerprint error'' s))))
         | Some (fingerprint, type) \<Rightarrow>
             getAuthenticationMethodes_step e
               (setSshState GetAuthenticationMethodes
                  (s\<lparr>m_hostKey := captured_hostKey e fingerprint type\<rparr>))))"

text \<open>\<open>case SshState::Initialize\<close>. A failed \<open>Q_ASSERT(m_knownHosts)\<close> is a fault; reading
  the known-hosts file changes nothing the client keeps.\<close>

definition initialize_step :: "env \<Rightarrow> SshClient \<Rightarrow> (fault + SshClient) option" where
  "initialize_step e s =
     (let s1 = s\<lparr>m_session := session_init_ex e\<rparr> in
      if m_session s1 = nullptr then
        Some (Inr (socket_disconnectFromHost e
                (setSshState Error (qlog Critical '': libssh error during session init'' s1))))
      else
        (let s2 = s1\<lparr>m_knownHosts := knownhost_init e\<rparr> in
         if m_knownHosts s2 = nullptr then Some (Inl AssertionFailed)
         else handShake_step e (setSshState HandShake s2)))"

text \<open>\<open>case SshState::FreeSession\<close>.\<close>

definition freeSession_step :: "env \<Rightarrow> SshClient \<Rightarrow> (fault + SshClient) option" where
  "freeSession_step e s =
     (let s1 = (if m_knownHosts s \<noteq> nullptr then s\<lparr>m_knownHosts := nullptr\<rparr> else s) in
      if m_session s1 \<noteq> nullptr \<and> session_free e = LIBSSH2_ERROR_EAGAIN then Some (Inr s1)
      else Some (Inr (setSshState Unconnected (emit sshDisconnected (s1\<lparr>m_session := nullptr\<rparr>)))))"

text \<open>\<open>case SshState::DisconnectingSession\<close>, falling through to \<open>FreeSession\<close>.\<close>

definition disconnectingSession_step :: "env \<Rightarrow> SshClient \<Rightarrow> (fault + SshClient) option" where
  "disconnectingSession_step e s =
     (let ret = session_disconnect_ex e in
      if ret = LIBSSH2_ERROR_EAGAIN then Some (Inr s)
      else freeSession_step e
             (if socket_state e = ConnectedState then socket_disconnectFromHost e s
              else emit sshEvent (setSshState FreeSession s)))"

text \<open>\<open>case SshState::DisconnectingChannel\<close>: every registered channel is asked to close.\<close>

definition disconnectingChannel_step :: "SshClient \<Rightarrow> SshClient" where
  "disconnectingChannel_step s =
     (if length (m_channels s) > 0
      then s\<lparr>out_closed := out_closed s @ m_channels s\<rparr>
      else setSshState DisconnectingSession s)"

text \<open>\<open>case SshState::Error\<close>.\<close>

definition error_step :: "env \<Rightarrow> SshClient \<Rightarrow> SshClient" where
  "error_step e s =
     emit sshError (qlog Warning '': ssh socket connection error''
       (if socket_state e \<noteq> UnconnectedState then socket_disconnectFromHost e s else s))"

text \<open>The \<open>switch\<close> on \<open>m_sshState\<close>. \<open>None\<close>: the slot never returns.\<close>

definition ssh_processEvent :: "env \<Rightarrow> SshClient \<Rightarrow> (fault + SshClient) option" where
  "ssh_processEvent e s =
     (case m_sshState s of
        Unconnected \<Rightarrow> Some (Inr (qlog Warning '': Unknown data on socket'' s))
      | SocketConnection \<Rightarrow>
          Some (Inr (qlog Warning '': Unknown data on socket''
            (setSshState WaitingSocketConnection
               (socket_connectToHost (m_hostname s) (m_port s)
                  (s\<lparr>m_connectionTimeout := timer_start ConnectionTimeout (m_connectionTimeout s)\<rparr>)))))
      | WaitingSocketConnection \<Rightarrow> Some (Inr (qlog Warning '': Unknown data on socket'' s))
      | Initialize \<Rightarrow> initialize_step e s
      | HandShake \<Rightarrow> handShake_step e s
      | GetAuthenticationMethodes \<Rightarrow> getAuthenticationMethodes_step e s
      | Authentication \<Rightarrow> authentication_step e s
      | Ready \<Rightarrow> Some (Inr (ready_step e s))
      | DisconnectingChannel \<Rightarrow> Some (Inr (disconnectingChannel_step s))
      | DisconnectingSession \<Rightarrow> disconnectingSession_step e s
      | FreeSession \<Rightarrow> freeSession_step e s
      | Error \<Rightarrow> Some (Inr (error_step e s)))"







text \<open>The result of the loop with \<open>d\<close> added to its count of attempts.\<close>

definition bump :: "nat \<Rightarrow> fault + ctl \<times> nat \<times> SshClient \<Rightarrow> fault + ctl \<times> nat \<times> SshClient" where
  "bump d y = (case y of Inl f \<Rightarrow> Inl f | Inr (c, k, s) \<Rightarrow> Inr (c, d + k, s))"

text \<open>An engine and clock for which every call succeeds at once, with a socket that is
  connected and still has data to write, so that it does not close at once.\<close>

definition prompt_env :: env where
  "prompt_env =
     \<lparr> session_init_ex = 1,
       knownhost_init = 2,
       session_handshake = 0,
       session_hostkey = Some (''AAAA'', 1),
       hostkey_hash = ''0123456789abcdef'',
       userauth_list = Some ''publickey,password'',
       session_last_error = 0,
       userauth_attempt = (\<lambda>k. 0),
       userauth_authenticated = True,
       session_disconnect_ex = 0,
       session_free = 0,
       keepalive_send = (0, 5),
       knownhost_add = (\<lambda>h k m. 0),
       knownhost_writefile = (\<lambda>f. 0),
       socket_state = ConnectedState,
       disconnected_at_once = False,
       currentMSecsSinceEpoch = 1000000 \<rparr>"

section \<open>Verified properties\<close>

subsection \<open>The arbiter\<close>

lemma arbiter_run_holders:
  "arbiter_run cs (s, H) = Inr (s', H') \<Longrightarrow> H = {a. owns s a} \<Longrightarrow>
   (\<not> channelCreationInProgress s \<longrightarrow> currentLockerForChannelCreation s = nullptr) \<Longrightarrow>
   H' = {a. owns s' a} \<and> (\<not> channelCreationInProgress s' \<longrightarrow> currentLockerForChannelCreation s' = nullptr)"
proof (induction cs arbitrary: s H)
  case Nil
  then show ?case by auto
next
  case (Cons c cs)
  show ?case
  proof (cases c)
    case (Acquire a)
    obtain ok s1 where t: "takeChannelCreationMutex a s = (ok, s1)" by (cases "takeChannelCreationMutex a s")
    have run: "arbiter_run cs (s1, if ok then insert a H else H) = Inr (s', H')"
      using Cons.prems(1) Acquire t by simp
    have h: "(if ok then insert a H else H) = {b. owns s1 b}"
      using t Cons.prems(2,3) by (auto simp: takeChannelCreationMutex_def tryLock_def owns_def split: if_splits)
    have i: "\<not> channelCreationInProgress s1 \<longrightarrow> currentLockerForChannelCreation s1 = nullptr"
      using t Cons.prems(3) by (auto simp: takeChannelCreationMutex_def tryLock_def split: if_splits)
    show ?thesis by (rule Cons.IH[OF run h i])
  next
    case (Release a)
    obtain s1 where r: "releaseChannelCreationMutex a s = Inr s1"
      using Cons.prems(1) Release by (cases "releaseChannelCreationMutex a s") auto
    have run: "arbiter_run cs (s1, H - {a}) = Inr (s', H')"
      using Cons.prems(1) Release r by simp
    have h: "H - {a} = {b. owns s1 b}"
      using r Cons.prems(2,3) by (auto simp: releaseChannelCreationMutex_def owns_def qlog_def split: if_splits)
    have i: "\<not> channelCreationInProgress s1 \<longrightarrow> currentLockerForChannelCreation s1 = nullptr"
      using r Cons.prems(3) by (auto simp: releaseChannelCreationMutex_def qlog_def split: if_splits)
    show ?thesis by (rule Cons.IH[OF run h i])
  qed
qed

text \<open>
  C5. Start from a free arbiter and make any sequence of acquire and release calls
  that runs without fault. Then the holders are exactly the identities that own the
  lock, and there is at most one. In the state reached, acquire(a) returns true and
  records a as the locker when the mutex is free or a owns it, and returns false at once,
  changing nothing, when another identity holds it. release(b) while a different
  identity a owns the lock leaves a the owner and the session state as it was, and
  reports the misuse as one critical log line.
\<close>

theorem arbiter_single_owner:
  assumes "arbiter_free s0" and "arbiter_run cs (s0, {}) = Inr (s, H)"
  shows "H = {a. owns s a} \<and> card H \<le> 1
    \<and> (\<not> channelCreationInProgress s \<or> owns s a \<longrightarrow>
         takeChannelCreationMutex a s =
           (True, s\<lparr>channelCreationInProgress := True, currentLockerForChannelCreation := a\<rparr>))
    \<and> (channelCreationInProgress s \<and> \<not> owns s a \<longrightarrow> takeChannelCreationMutex a s = (False, s))
    \<and> (owns s a \<and> a \<noteq> b \<longrightarrow>
         (\<exists>s'. releaseChannelCreationMutex b s = Inr s' \<and> owns s' a
              \<and> out_log s' = out_log s @ [(Critical, ''Trying to release channel mutex but it doesn't host it'')]
              \<and> m_sshState s' = m_sshState s))"
proof -
  have inv: "H = {a. owns s a}"
    using arbiter_run_holders[OF assms(2)] assms(1) by (auto simp: arbiter_free_def owns_def)
  have "H = {} \<or> H = {currentLockerForChannelCreation s}"
    unfolding inv by (auto simp: owns_def)
  then have c: "card H \<le> 1" by auto
  show ?thesis using inv c
    by (auto simp: takeChannelCreationMutex_def tryLock_def owns_def releaseChannelCreationMutex_def qlog_def)
qed

theorem arbiter_single_owner_witness:
  "arbiter_free new_client \<and>
   (\<exists>s H. arbiter_run [Acquire 1, Acquire 1, Acquire 2, Release 2] (new_client, {}) = Inr (s, H)
      \<and> H = {1} \<and> owns s 1 \<and> takeChannelCreationMutex 2 s = (False, s)
      \<and> fst (takeChannelCreationMutex 1 s))"
proof -
  have f: "arbiter_free new_client" by (simp add: arbiter_free_def new_client_def nullptr_def)
  obtain s H where r: "arbiter_run [Acquire 1, Acquire 1, Acquire 2, Release 2] (new_client, {}) = Inr (s, H)"
    by (simp add: takeChannelCreationMutex_def tryLock_def releaseChannelCreationMutex_def new_client_def qlog_def nullptr_def)
  have o: "owns s 1" using r
    by (auto simp add: takeChannelCreationMutex_def tryLock_def releaseChannelCreationMutex_def new_client_def qlog_def nullptr_def owns_def)
  from arbiter_single_owner[OF f r, of 1 2] arbiter_single_owner[OF f r, of 2 1] o f r show ?thesis
    by (auto simp: owns_def)
qed


subsection \<open>Connect and disconnect requests\<close>

text \<open>
  C3, as the code has it. \<open>connectToHost\<close> returns 0 whether or not it accepts the
  request. When the state is not Unconnected it logs one critical line and leaves the
  stored hostname, port, username, method list and the session state as they were. When
  the state is Unconnected it stores the four parameters, moves the state to
  SocketConnection and queues a process event.
\<close>

theorem connectToHost_guard:
  "fst (connectToHost user host port methodes s) = 0
   \<and> (sshState s \<noteq> Unconnected \<longrightarrow>
        snd (connectToHost user host port methodes s) = qlog Critical ''Allready connected'' s
        \<and> m_hostname (snd (connectToHost user host port methodes s)) = m_hostname s
        \<and> m_port (snd (connectToHost user host port methodes s)) = m_port s
        \<and> m_username (snd (connectToHost user host port methodes s)) = m_username s
        \<and> m_authenticationMethodes (snd (connectToHost user host port methodes s))
            = m_authenticationMethodes s
        \<and> m_sshState (snd (connectToHost user host port methodes s)) = m_sshState s)
   \<and> (sshState s = Unconnected \<longrightarrow>
        m_hostname (snd (connectToHost user host port methodes s)) = host
        \<and> m_port (snd (connectToHost user host port methodes s)) = port
        \<and> m_username (snd (connectToHost user host port methodes s)) = user
        \<and> m_authenticationMethodes (snd (connectToHost user host port methodes s)) = methodes
        \<and> m_sshState (snd (connectToHost user host port methodes s)) = SocketConnection
        \<and> out_signals (snd (connectToHost user host port methodes s))
            = out_signals s @ [sshStateChanged SocketConnection, sshEvent])"
  by (simp add: connectToHost_def sshState_def qlog_def setSshState_def emit_def)

theorem connectToHost_guard_witness:
  "sshState (new_client\<lparr>m_sshState := Ready\<rparr>) \<noteq> Unconnected
   \<and> connectToHost ''user'' ''host'' 22 [''password''] (new_client\<lparr>m_sshState := Ready\<rparr>)
       = (0, qlog Critical ''Allready connected'' (new_client\<lparr>m_sshState := Ready\<rparr>))
   \<and> sshState new_client = Unconnected
   \<and> m_sshState (snd (connectToHost ''user'' ''host'' 22 [''password''] new_client)) = SocketConnection
   \<and> m_authenticationMethodes (snd (connectToHost ''user'' ''host'' 22 [''password''] new_client))
       = [''password'']"
proof -
  have r: "sshState (new_client\<lparr>m_sshState := Ready\<rparr>) \<noteq> Unconnected"
    by (simp add: sshState_def)
  have u: "sshState new_client = Unconnected"
    by (simp add: sshState_def new_client_def)
  from connectToHost_guard [of "''user''" "''host''" 22 "[''password'']" "new_client\<lparr>m_sshState := Ready\<rparr>"]
       connectToHost_guard [of "''user''" "''host''" 22 "[''password'']" new_client] r u
  show ?thesis
    by (metis prod.collapse)
qed

text \<open>
  The return value does not tell a rejected request from an accepted one: a request made
  in state Ready and one made in state Unconnected both return 0.
\<close>

theorem connectToHost_same_return_counterexample:
  "sshState (new_client\<lparr>m_sshState := Ready\<rparr>) \<noteq> Unconnected
   \<and> sshState new_client = Unconnected
   \<and> fst (connectToHost ''user'' ''host'' 22 [] (new_client\<lparr>m_sshState := Ready\<rparr>))
       = fst (connectToHost ''user'' ''host'' 22 [] new_client)"
  by (simp add: connectToHost_def sshState_def new_client_def)


text \<open>
  C6. \<open>disconnectFromHost\<close> changes nothing when the state is Unconnected. Otherwise it
  moves the state to DisconnectingSession when no channel is registered and to
  DisconnectingChannel when at least one is, keeps the registry, and queues a process
  event.
\<close>

theorem disconnectFromHost_transition:
  "(m_sshState s = Unconnected \<longrightarrow> disconnectFromHost s = s)
   \<and> (m_sshState s \<noteq> Unconnected \<and> m_channels s = [] \<longrightarrow>
        m_sshState (disconnectFromHost s) = DisconnectingSession)
   \<and> (m_sshState s \<noteq> Unconnected \<and> m_channels s \<noteq> [] \<longrightarrow>
        m_sshState (disconnectFromHost s) = DisconnectingChannel)
   \<and> (m_sshState s \<noteq> Unconnected \<longrightarrow>
        m_channels (disconnectFromHost s) = m_channels s
        \<and> (\<exists>sg. out_signals (disconnectFromHost s) = out_signals s @ sg @ [sshEvent]))"
  by (simp add: disconnectFromHost_def setSshState_def emit_def)

theorem disconnectFromHost_transition_witness:
  "m_sshState new_client = Unconnected \<and> disconnectFromHost new_client = new_client
   \<and> m_sshState (new_client\<lparr>m_sshState := Ready\<rparr>) \<noteq> Unconnected
   \<and> m_channels (new_client\<lparr>m_sshState := Ready\<rparr>) = []
   \<and> m_sshState (disconnectFromHost (new_client\<lparr>m_sshState := Ready\<rparr>)) = DisconnectingSession
   \<and> m_channels (new_client\<lparr>m_sshState := Ready, m_channels := [7]\<rparr>) \<noteq> []
   \<and> m_sshState (disconnectFromHost (new_client\<lparr>m_sshState := Ready, m_channels := [7]\<rparr>))
       = DisconnectingChannel"
  using disconnectFromHost_transition [of new_client]
        disconnectFromHost_transition [of "new_client\<lparr>m_sshState := Ready\<rparr>"]
        disconnectFromHost_transition [of "new_client\<lparr>m_sshState := Ready, m_channels := [7]\<rparr>"]
  by (simp add: new_client_def)

subsection \<open>Known hosts\<close>

text \<open>
  C10. For a key of type Rsa or Dss, \<open>addKnownHost\<close> returns the result of
  \<open>libssh2_knownhost_add\<close> (called with the plain, raw-encoded type mask of the key type)
  converted to bool: true exactly when the result is not 0. \<open>saveKnownHosts\<close> returns true
  exactly when \<open>libssh2_knownhost_writefile\<close> returns 0. On the same result code of the
  library the two functions return opposite values.
\<close>

theorem addKnownHost_polarity:
  assumes "sshkey_type key = Rsa \<or> sshkey_type key = Dss"
  shows "addKnownHost e hostname key s
           = (knownhost_add e hostname (sshkey_key key)
                (if sshkey_type key = Rsa then 589825 else 851969) \<noteq> 0)
       \<and> saveKnownHosts e file s = (knownhost_writefile e file = 0)
       \<and> (knownhost_add e = (\<lambda>h k m. r) \<and> knownhost_writefile e = (\<lambda>f. r) \<longrightarrow>
            addKnownHost e hostname key s = (\<not> saveKnownHosts e file s))"
  using assms
  by (auto simp: addKnownHost_def saveKnownHosts_def int_to_bool_def
        LIBSSH2_KNOWNHOST_TYPE_PLAIN_def LIBSSH2_KNOWNHOST_KEYENC_RAW_def
        LIBSSH2_KNOWNHOST_KEY_SSHRSA_def LIBSSH2_KNOWNHOST_KEY_SSHDSS_def)

theorem addKnownHost_polarity_witness:
  "sshkey_type \<lparr> sshkey_type = Rsa, sshkey_hash = [], sshkey_key = ''AAAA'' \<rparr> = Rsa
   \<and> \<not> addKnownHost prompt_env ''host'' \<lparr> sshkey_type = Rsa, sshkey_hash = [], sshkey_key = ''AAAA'' \<rparr> new_client
   \<and> saveKnownHosts prompt_env ''file'' new_client
   \<and> addKnownHost (prompt_env\<lparr>knownhost_add := (\<lambda>h k m. - 1)\<rparr>) ''host''
        \<lparr> sshkey_type = Rsa, sshkey_hash = [], sshkey_key = ''AAAA'' \<rparr> new_client"
  using addKnownHost_polarity [of "\<lparr> sshkey_type = Rsa, sshkey_hash = [], sshkey_key = ''AAAA'' \<rparr>"
          prompt_env "''host''" new_client "''file''" 0]
        addKnownHost_polarity [of "\<lparr> sshkey_type = Rsa, sshkey_hash = [], sshkey_key = ''AAAA'' \<rparr>"
          "prompt_env\<lparr>knownhost_add := (\<lambda>h k m. - 1)\<rparr>" "''host''" new_client "''file''" 0]
  by (simp add: prompt_env_def)

subsection \<open>Keepalive\<close>

lemma int32_id: "- 2147483648 \<le> x \<Longrightarrow> x < 2147483648 \<Longrightarrow> int32 x = x"
  by (simp add: int32_def mod_pos_pos_trivial)

lemma int64_id: "- 9223372036854775808 \<le> x \<Longrightarrow> x < 9223372036854775808 \<Longrightarrow> int64 x = x"
  by (simp add: int64_def mod_pos_pos_trivial)

lemma cdiv_thousands: "0 \<le> n \<Longrightarrow> cdiv (n * 1000) 1000 = n"
  by (simp add: cdiv_def)

lemma out_socket_disconnectFromHost:
  "out_socket (socket_disconnectFromHost e s) = out_socket s @ [SockDisconnectFromHost]"
  by (simp add: socket_disconnectFromHost_def connection_socketDisconnected_def Let_def
        setSshState_def emit_def qlog_def)

lemma sendKeepAlive_cases:
  assumes "m_session s \<noteq> nullptr"
      and "keepalive_send e = (ret, i)"
      and "ret \<noteq> LIBSSH2_ERROR_SOCKET_SEND"
      and "0 < i" and "6 * i < 2 ^ 31" and "max (i - 1) 2 * 1000 < 2 ^ 31"
      and "- (2 ^ 63) \<le> currentMSecsSinceEpoch e - m_lastProofOfLive s"
      and "currentMSecsSinceEpoch e - m_lastProofOfLive s < 2 ^ 63"
  shows "sendKeepAlive e s =
           (if cdiv (currentMSecsSinceEpoch e - m_lastProofOfLive s) 1000 > 6 * i
            then socket_disconnectFromHost e (qlog Warning '': Connection lost !!!'' s)
            else s\<lparr>m_keepalive := timer_start (max (i - 1) 2 * 1000) (m_keepalive s)\<rparr>)"
proof -
  have a: "int64 (currentMSecsSinceEpoch e - m_lastProofOfLive s)
             = currentMSecsSinceEpoch e - m_lastProofOfLive s"
    using assms(7,8) by (intro int64_id) simp_all
  have b: "int32 (MAX_LOST_KEEP_ALIVE * i) = 6 * i"
    using assms(4,5) by (simp add: MAX_LOST_KEEP_ALIVE_def int32_id)
  have c: "int32 (i - 1) = i - 1"
    using assms(4,6) by (intro int32_id) (simp_all add: max_def split: if_splits)
  show ?thesis
    using assms(1,2,3,4,6)
    by (auto simp: sendKeepAlive_def Let_def a b c int32_id max_def split: if_splits)
qed

text \<open>
  C4, as the code has it. The probe runs with a session handle, the send does not fail with
  \<open>LIBSSH2_ERROR_SOCKET_SEND\<close>, and the engine advertises i > 0 seconds; i and the two
  time stamps are such that the 32-bit and 64-bit arithmetic of the code does not
  overflow (6 i and the new timer interval in milliseconds are below 2^31, the
  difference of the stamps is a \<open>qint64\<close>). Then the probe
  disconnects the socket exactly when the elapsed whole seconds exceed 6 i, and
  otherwise restarts the timer at max (i - 1) 2 seconds. An elapsed time of 6 i + 1
  seconds disconnects, one of 6 i - 1 seconds restarts the timer, and for i at most 3
  the timer is restarted at 2 seconds.
\<close>

theorem keepalive_probe:
  assumes "m_session s \<noteq> nullptr"
      and "keepalive_send e = (ret, i)"
      and "ret \<noteq> LIBSSH2_ERROR_SOCKET_SEND"
      and "0 < i" and "6 * i < 2 ^ 31" and "max (i - 1) 2 * 1000 < 2 ^ 31"
      and "- (2 ^ 63) \<le> currentMSecsSinceEpoch e - m_lastProofOfLive s"
      and "currentMSecsSinceEpoch e - m_lastProofOfLive s < 2 ^ 63"
  shows "(cdiv (currentMSecsSinceEpoch e - m_lastProofOfLive s) 1000 > 6 * i \<longrightarrow>
            sendKeepAlive e s
              = socket_disconnectFromHost e (qlog Warning '': Connection lost !!!'' s))
       \<and> (\<not> cdiv (currentMSecsSinceEpoch e - m_lastProofOfLive s) 1000 > 6 * i \<longrightarrow>
            sendKeepAlive e s
              = s\<lparr>m_keepalive := timer_start (max (i - 1) 2 * 1000) (m_keepalive s)\<rparr>)
       \<and> (out_socket (sendKeepAlive e s) = out_socket s @ [SockDisconnectFromHost]
            \<longleftrightarrow> cdiv (currentMSecsSinceEpoch e - m_lastProofOfLive s) 1000 > 6 * i)
       \<and> (currentMSecsSinceEpoch e - m_lastProofOfLive s = (6 * i + 1) * 1000 \<longrightarrow>
            out_socket (sendKeepAlive e s) = out_socket s @ [SockDisconnectFromHost])
       \<and> (currentMSecsSinceEpoch e - m_lastProofOfLive s = (6 * i - 1) * 1000 \<longrightarrow>
            out_socket (sendKeepAlive e s) = out_socket s
            \<and> m_keepalive (sendKeepAlive e s)
                = timer_start (max (i - 1) 2 * 1000) (m_keepalive s))
       \<and> (\<not> cdiv (currentMSecsSinceEpoch e - m_lastProofOfLive s) 1000 > 6 * i \<and> i \<le> 3 \<longrightarrow>
            m_keepalive (sendKeepAlive e s) = timer_start 2000 (m_keepalive s))"
proof -
  note eq = sendKeepAlive_cases [OF assms]
  have p: "cdiv ((6 * i + 1) * 1000) 1000 = 6 * i + 1"
    using assms(4) by (intro cdiv_thousands) simp
  have m: "cdiv ((6 * i - 1) * 1000) 1000 = 6 * i - 1"
    using assms(4) by (intro cdiv_thousands) simp
  have f: "i \<le> 3 \<Longrightarrow> max (i - 1) 2 * 1000 = 2000"
    by (simp add: max_def)
  show ?thesis
    unfolding eq using p m f
    by (auto simp: out_socket_disconnectFromHost qlog_def)
qed

theorem keepalive_probe_witness:
  "m_session (new_client\<lparr>m_session := 1, m_lastProofOfLive := 969000\<rparr>) \<noteq> nullptr
   \<and> keepalive_send prompt_env = (0, 5)
   \<and> 0 \<noteq> LIBSSH2_ERROR_SOCKET_SEND
   \<and> currentMSecsSinceEpoch prompt_env
       - m_lastProofOfLive (new_client\<lparr>m_session := 1, m_lastProofOfLive := 969000\<rparr>) = (6 * 5 + 1) * 1000
   \<and> out_socket (sendKeepAlive prompt_env (new_client\<lparr>m_session := 1, m_lastProofOfLive := 969000\<rparr>))
       = [SockDisconnectFromHost]
   \<and> currentMSecsSinceEpoch prompt_env
       - m_lastProofOfLive (new_client\<lparr>m_session := 1, m_lastProofOfLive := 971000\<rparr>) = (6 * 5 - 1) * 1000
   \<and> out_socket (sendKeepAlive prompt_env (new_client\<lparr>m_session := 1, m_lastProofOfLive := 971000\<rparr>)) = []
   \<and> interval (m_keepalive (sendKeepAlive prompt_env
        (new_client\<lparr>m_session := 1, m_lastProofOfLive := 971000\<rparr>))) = 4000
   \<and> interval (m_keepalive (sendKeepAlive (prompt_env\<lparr>keepalive_send := (0, 3)\<rparr>)
        (new_client\<lparr>m_session := 1, m_lastProofOfLive := 983000\<rparr>))) = 2000"
proof -
  have k: "keepalive_send prompt_env = (0, 5)" by (simp add: prompt_env_def)
  have k3: "keepalive_send (prompt_env\<lparr>keepalive_send := (0, 3)\<rparr>) = (0, 3)" by simp
  have n: "(0::int) \<noteq> LIBSSH2_ERROR_SOCKET_SEND" by (simp add: LIBSSH2_ERROR_SOCKET_SEND_def)
  have a: "out_socket (sendKeepAlive prompt_env (new_client\<lparr>m_session := 1, m_lastProofOfLive := 969000\<rparr>))
       = [SockDisconnectFromHost]"
    using keepalive_probe [OF _ k n, of "new_client\<lparr>m_session := 1, m_lastProofOfLive := 969000\<rparr>"]
    by (simp add: nullptr_def prompt_env_def new_client_def)
  have b: "out_socket (sendKeepAlive prompt_env (new_client\<lparr>m_session := 1, m_lastProofOfLive := 971000\<rparr>)) = []
     \<and> interval (m_keepalive (sendKeepAlive prompt_env
        (new_client\<lparr>m_session := 1, m_lastProofOfLive := 971000\<rparr>))) = 4000"
    using keepalive_probe [OF _ k n, of "new_client\<lparr>m_session := 1, m_lastProofOfLive := 971000\<rparr>"]
    by (simp add: nullptr_def prompt_env_def new_client_def timer_start_def)
  have c: "interval (m_keepalive (sendKeepAlive (prompt_env\<lparr>keepalive_send := (0, 3)\<rparr>)
        (new_client\<lparr>m_session := 1, m_lastProofOfLive := 983000\<rparr>))) = 2000"
    using keepalive_probe [OF _ k3 n, of "new_client\<lparr>m_session := 1, m_lastProofOfLive := 983000\<rparr>"]
    by (simp add: nullptr_def prompt_env_def new_client_def timer_start_def)
  show ?thesis using a b c k n
    by (simp add: nullptr_def prompt_env_def new_client_def)
qed

text \<open>
  Beyond those bounds the 32-bit arithmetic of the probe wraps. With an advertised
  interval of 357913942 seconds and one second elapsed, 6 i wraps to a negative number
  and the probe disconnects although the elapsed time does not exceed 6 i. With an
  interval of 2147485 seconds the timer is restarted with a negative number of
  milliseconds instead of 2147484 seconds.
\<close>

theorem keepalive_probe_overflow_counterexample:
  "cdiv (currentMSecsSinceEpoch (prompt_env\<lparr>keepalive_send := (0, 357913942)\<rparr>)
           - m_lastProofOfLive (new_client\<lparr>m_session := 1, m_lastProofOfLive := 999000\<rparr>)) 1000 = 1
   \<and> \<not> (1 :: int) > 6 * 357913942
   \<and> out_socket (sendKeepAlive (prompt_env\<lparr>keepalive_send := (0, 357913942)\<rparr>)
                   (new_client\<lparr>m_session := 1, m_lastProofOfLive := 999000\<rparr>))
       = [SockDisconnectFromHost]
   \<and> out_socket (sendKeepAlive (prompt_env\<lparr>keepalive_send := (0, 2147485)\<rparr>)
                   (new_client\<lparr>m_session := 1, m_lastProofOfLive := 999000\<rparr>)) = []
   \<and> interval (m_keepalive (sendKeepAlive (prompt_env\<lparr>keepalive_send := (0, 2147485)\<rparr>)
                   (new_client\<lparr>m_session := 1, m_lastProofOfLive := 999000\<rparr>)))
       = - 2147483296
   \<and> max (2147485 - 1) 2 * 1000 \<noteq> (- 2147483296 :: int)"
  by (simp add: sendKeepAlive_def Let_def prompt_env_def new_client_def nullptr_def cdiv_def
        int32_def int64_def MAX_LOST_KEEP_ALIVE_def LIBSSH2_ERROR_SOCKET_SEND_def
        out_socket_disconnectFromHost qlog_def timer_start_def)

subsection \<open>The channel registry during teardown\<close>

lemma unregister_channels:
  "m_channels (unregisterChannel c s) = remove1 c (m_channels s)"
  by (simp add: unregisterChannel_def Let_def setSshState_def emit_def)

lemma unregister_fold:
  "m_sshState s = DisconnectingChannel \<or> (m_sshState s = DisconnectingSession \<and> m_channels s = [] \<and> \<not> active (m_keepalive s)) \<Longrightarrow>
   m_sshState s = DisconnectingChannel \<longrightarrow> m_channels s \<noteq> [] \<Longrightarrow>
   m_channels (fold unregisterChannel cs s) = fold remove1 cs (m_channels s)
   \<and> (m_channels (fold unregisterChannel cs s) \<noteq> [] \<longrightarrow>
        m_sshState (fold unregisterChannel cs s) = DisconnectingChannel)
   \<and> (m_channels (fold unregisterChannel cs s) = [] \<longrightarrow>
        m_sshState (fold unregisterChannel cs s) = DisconnectingSession
        \<and> \<not> active (m_keepalive (fold unregisterChannel cs s)))"
proof (induction cs arbitrary: s)
  case Nil
  then show ?case by auto
next
  case (Cons c cs)
  let ?s1 = "unregisterChannel c s"
  have a: "m_sshState ?s1 = DisconnectingChannel \<or> (m_sshState ?s1 = DisconnectingSession \<and> m_channels ?s1 = [] \<and> \<not> active (m_keepalive ?s1))"
    using Cons.prems by (auto simp: unregisterChannel_def Let_def setSshState_def emit_def sshState_def timer_stop_def)
  have b: "m_sshState ?s1 = DisconnectingChannel \<longrightarrow> m_channels ?s1 \<noteq> []"
    using Cons.prems by (auto simp: unregisterChannel_def Let_def setSshState_def emit_def sshState_def timer_stop_def)
  from Cons.IH[OF a b] show ?case by (simp add: unregister_channels)
qed

text \<open>
  C7. Start in DisconnectingChannel with a non-empty registry and unregister any
  channels in any order: while the registry is non-empty the state is still
  DisconnectingChannel, and once it is empty the state is DisconnectingSession and the
  keepalive timer is stopped. The call that empties the registry in DisconnectingChannel
  stops the timer, sets DisconnectingSession and queues a process event. The process
  event in DisconnectingChannel with channels registered only asks them to close. In
  every other case \<open>unregisterChannel\<close> only removes the channel from the registry.
\<close>

theorem unregisterChannel_teardown:
  "(m_sshState s = DisconnectingChannel \<and> m_channels s \<noteq> [] \<longrightarrow>
      m_channels (fold unregisterChannel cs s) = fold remove1 cs (m_channels s)
      \<and> (m_channels (fold unregisterChannel cs s) \<noteq> [] \<longrightarrow>
           m_sshState (fold unregisterChannel cs s) = DisconnectingChannel)
      \<and> (m_channels (fold unregisterChannel cs s) = [] \<longrightarrow>
           m_sshState (fold unregisterChannel cs s) = DisconnectingSession
           \<and> \<not> active (m_keepalive (fold unregisterChannel cs s))))
   \<and> (m_sshState s = DisconnectingChannel \<and> remove1 c (m_channels s) = [] \<longrightarrow>
        unregisterChannel c s
          = s\<lparr>m_sshState := DisconnectingSession,
               m_channels := [],
               m_keepalive := timer_stop (m_keepalive s),
               out_signals := out_signals s @ [sshStateChanged DisconnectingSession, sshEvent]\<rparr>)
   \<and> (m_sshState s = DisconnectingChannel \<and> m_channels s \<noteq> [] \<longrightarrow>
        ssh_processEvent e s = Some (Inr (s\<lparr>out_closed := out_closed s @ m_channels s\<rparr>)))
   \<and> (m_sshState s \<noteq> DisconnectingChannel \<or> remove1 c (m_channels s) \<noteq> [] \<longrightarrow>
        unregisterChannel c s = s\<lparr>m_channels := remove1 c (m_channels s)\<rparr>)"
proof -
  have 1: "m_sshState s = DisconnectingChannel \<and> m_channels s \<noteq> [] \<longrightarrow>
      m_channels (fold unregisterChannel cs s) = fold remove1 cs (m_channels s)
      \<and> (m_channels (fold unregisterChannel cs s) \<noteq> [] \<longrightarrow>
           m_sshState (fold unregisterChannel cs s) = DisconnectingChannel)
      \<and> (m_channels (fold unregisterChannel cs s) = [] \<longrightarrow>
           m_sshState (fold unregisterChannel cs s) = DisconnectingSession
           \<and> \<not> active (m_keepalive (fold unregisterChannel cs s)))"
    using unregister_fold[of s cs] by blast
  have 2: "m_sshState s = DisconnectingChannel \<and> remove1 c (m_channels s) = [] \<longrightarrow>
        unregisterChannel c s
          = s\<lparr>m_sshState := DisconnectingSession,
               m_channels := [],
               m_keepalive := timer_stop (m_keepalive s),
               out_signals := out_signals s @ [sshStateChanged DisconnectingSession, sshEvent]\<rparr>"
    by (simp add: unregisterChannel_def Let_def setSshState_def emit_def sshState_def)
  have 3: "m_sshState s = DisconnectingChannel \<and> m_channels s \<noteq> [] \<longrightarrow>
        ssh_processEvent e s = Some (Inr (s\<lparr>out_closed := out_closed s @ m_channels s\<rparr>))"
    by (simp add: ssh_processEvent_def disconnectingChannel_step_def)
  have 4: "m_sshState s \<noteq> DisconnectingChannel \<or> remove1 c (m_channels s) \<noteq> [] \<longrightarrow>
        unregisterChannel c s = s\<lparr>m_channels := remove1 c (m_channels s)\<rparr>"
    by (auto simp add: unregisterChannel_def Let_def sshState_def)
  from 1 2 3 4 show ?thesis by blast
qed


theorem unregisterChannel_teardown_witness:
  "m_sshState (new_client\<lparr>m_sshState := DisconnectingChannel, m_channels := [3, 5, 8],
                 m_keepalive := \<lparr>active = True, interval = 4000, singleShot = True\<rparr>\<rparr>)
     = DisconnectingChannel
   \<and> m_sshState (fold unregisterChannel [8, 3]
        (new_client\<lparr>m_sshState := DisconnectingChannel, m_channels := [3, 5, 8],
                 m_keepalive := \<lparr>active = True, interval = 4000, singleShot = True\<rparr>\<rparr>))
       = DisconnectingChannel
   \<and> m_sshState (fold unregisterChannel [8, 3, 5]
        (new_client\<lparr>m_sshState := DisconnectingChannel, m_channels := [3, 5, 8],
                 m_keepalive := \<lparr>active = True, interval = 4000, singleShot = True\<rparr>\<rparr>))
       = DisconnectingSession
   \<and> \<not> active (m_keepalive (fold unregisterChannel [8, 3, 5]
        (new_client\<lparr>m_sshState := DisconnectingChannel, m_channels := [3, 5, 8],
                 m_keepalive := \<lparr>active = True, interval = 4000, singleShot = True\<rparr>\<rparr>)))
   \<and> unregisterChannel 5 (new_client\<lparr>m_sshState := Ready, m_channels := [5]\<rparr>)
       = new_client\<lparr>m_sshState := Ready, m_channels := []\<rparr>"
proof -
  let ?s = "new_client\<lparr>m_sshState := DisconnectingChannel, m_channels := [3, 5, 8],
                 m_keepalive := \<lparr>active = True, interval = 4000, singleShot = True\<rparr>\<rparr>"
  have a: "m_sshState ?s = DisconnectingChannel \<and> m_channels ?s \<noteq> []" by simp
  have b: "fold remove1 [8, 3] (m_channels ?s) \<noteq> []" by simp
  have c: "fold remove1 [8, 3, 5] (m_channels ?s) = []" by simp
  have d: "m_sshState (new_client\<lparr>m_sshState := Ready, m_channels := [5]\<rparr>) \<noteq> DisconnectingChannel"
    by simp
  show ?thesis
    using unregisterChannel_teardown [of ?s "[8, 3]" 5 prompt_env]
          unregisterChannel_teardown [of ?s "[8, 3, 5]" 5 prompt_env]
          unregisterChannel_teardown [of "new_client\<lparr>m_sshState := Ready, m_channels := [5]\<rparr>" "[]" 5 prompt_env]
          a b c d
    by simp
qed

subsection \<open>The Error state\<close>









subsection \<open>One turn of the authentication loop\<close>







lemma iteration_other:
  "m_authenticationMethodes s = m # ms \<Longrightarrow> m \<noteq> ''publickey'' \<Longrightarrow> m \<noteq> ''password'' \<Longrightarrow>
   auth_iteration e k s = Inr (CtlNext, k, s)"
  by (simp add: auth_iteration_def first_def)











subsection \<open>The authentication loop\<close>

lemma unrecognized_loop_no_result:
  assumes r: "authentication_loop e k s = Some y"
  shows "\<not> (\<exists>m ms. m_authenticationMethodes s = m # ms \<and> m \<noteq> ''publickey'' \<and> m \<noteq> ''password'')"
proof (rule authentication_loop.raw_induct
         [where P = "\<lambda>e k s y. \<not> (\<exists>m ms. m_authenticationMethodes s = m # ms
                                  \<and> m \<noteq> ''publickey'' \<and> m \<noteq> ''password'')", OF _ r])
  fix loop :: "env \<Rightarrow> nat \<Rightarrow> SshClient \<Rightarrow> (fault + ctl \<times> nat \<times> SshClient) option"
  fix e k s y
  assume IH: "\<And>e k s y. loop e k s = Some y \<Longrightarrow>
                \<not> (\<exists>m ms. m_authenticationMethodes s = m # ms \<and> m \<noteq> ''publickey'' \<and> m \<noteq> ''password'')"
  assume body: "(if length (m_authenticationMethodes s) \<noteq> 0 then
        (case auth_iteration e k s of
           Inl f \<Rightarrow> Some (Inl f)
         | Inr (c, k', s') \<Rightarrow>
             (if c = CtlNext then loop e k' s'
              else Some (Inr (c, k', s'))))
      else Some (Inr (CtlBreak, k, s))) = Some y"
  show "\<not> (\<exists>m ms. m_authenticationMethodes s = m # ms \<and> m \<noteq> ''publickey'' \<and> m \<noteq> ''password'')"
  proof
    assume "\<exists>m ms. m_authenticationMethodes s = m # ms \<and> m \<noteq> ''publickey'' \<and> m \<noteq> ''password''"
    then obtain m ms where h: "m_authenticationMethodes s = m # ms" "m \<noteq> ''publickey''" "m \<noteq> ''password''"
      by blast
    have "loop e k s = Some y"
      using body h(1) by (simp add: iteration_other [OF h])
    from IH [OF this] h show False by blast
  qed
qed

lemma unrecognized_loop_None:
  "m_authenticationMethodes s = m # ms \<Longrightarrow> m \<noteq> ''publickey'' \<Longrightarrow> m \<noteq> ''password'' \<Longrightarrow>
   authentication_loop e k s = None"
  using unrecognized_loop_no_result [of e k s] by (cases "authentication_loop e k s") auto

text \<open>
  C2, at the failing input. With the candidate list ["keyboard-interactive"] the process
  event in state Authentication never returns, whatever the engine answers: the loop
  neither removes nor passes over the unrecognised first candidate. The same happens with
  ["publickey", "keyboard-interactive", "password"] once the publickey attempt has failed.
\<close>

theorem unrecognized_method_never_returns:
  "ssh_processEvent e
     (new_client\<lparr>m_sshState := Authentication,
                 m_authenticationMethodes := [''keyboard-interactive'']\<rparr>) = None
   \<and> ssh_processEvent (e\<lparr>userauth_attempt := (\<lambda>k. - 18)\<rparr>)
        (new_client\<lparr>m_sshState := Authentication,
                    m_authenticationMethodes := [''publickey'', ''keyboard-interactive'', ''password'']\<rparr>)
       = None"
proof -
  have a: "authentication_loop e 0 (new_client\<lparr>m_sshState := Authentication,
                 m_authenticationMethodes := [''keyboard-interactive'']\<rparr>) = None"
    by (rule unrecognized_loop_None [where m = "''keyboard-interactive''" and ms = "[]"]) simp_all
  let ?e = "e\<lparr>userauth_attempt := (\<lambda>k. - 18)\<rparr>"
  let ?s = "new_client\<lparr>m_sshState := Authentication,
                    m_authenticationMethodes := [''publickey'', ''keyboard-interactive'', ''password'']\<rparr>"
  let ?s1 = "(qlog Warning '': Authentication with publickey failed:'' ?s)
               \<lparr>m_authenticationMethodes := [''keyboard-interactive'', ''password'']\<rparr>"
  have it: "auth_iteration ?e 0 ?s = Inr (CtlNext, Suc 0, ?s1)"
    by (simp add: auth_iteration_def first_def publickey_block_def LIBSSH2_ERROR_EAGAIN_def qlog_def)
  have n: "authentication_loop ?e (Suc 0) ?s1 = None"
    by (rule unrecognized_loop_None [where m = "''keyboard-interactive''" and ms = "[''password'']"])
       (simp_all add: qlog_def)
  have b: "authentication_loop ?e 0 ?s = None"
    by (subst authentication_loop.simps) (simp add: it n)
  show ?thesis
    using a b by (simp add: ssh_processEvent_def authentication_step_def)
qed

text \<open>
  C9. In state Authentication with "publickey" the only candidate, a publickey attempt
  that fails outright (negative, not EAGAIN) removes the candidate, and the same turn of
  the loop then calls \<open>first()\<close> on the empty list: the process event ends in that fault.
\<close>

theorem sole_publickey_failure_reads_empty_list:
  assumes "m_sshState s = Authentication"
      and "m_authenticationMethodes s = [''publickey'']"
      and "userauth_attempt e 0 < 0"
      and "userauth_attempt e 0 \<noteq> LIBSSH2_ERROR_EAGAIN"
  shows "m_authenticationMethodes (snd (snd (publickey_block e 0 s))) = []
       \<and> first (m_authenticationMethodes (snd (snd (publickey_block e 0 s)))) = Inl FirstOfEmptyList
       \<and> auth_iteration e 0 s = Inl FirstOfEmptyList
       \<and> ssh_processEvent e s = Some (Inl FirstOfEmptyList)"
proof -
  have p: "publickey_block e 0 s
             = (CtlNext, Suc 0, (qlog Warning '': Authentication with publickey failed:'' s)
                                   \<lparr>m_authenticationMethodes := []\<rparr>)"
    using assms by (simp add: publickey_block_def)
  have i: "auth_iteration e 0 s = Inl FirstOfEmptyList"
    using assms(2) by (simp add: auth_iteration_def p first_def)
  have l: "authentication_loop e 0 s = Some (Inl FirstOfEmptyList)"
    by (subst authentication_loop.simps) (simp add: i assms(2))
  show ?thesis
    using assms(1) by (simp add: p i l first_def ssh_processEvent_def authentication_step_def)
qed

theorem sole_publickey_failure_reads_empty_list_witness:
  "m_sshState (new_client\<lparr>m_sshState := Authentication, m_authenticationMethodes := [''publickey'']\<rparr>)
     = Authentication
   \<and> userauth_attempt (prompt_env\<lparr>userauth_attempt := (\<lambda>k. - 18)\<rparr>) 0 < 0
   \<and> userauth_attempt (prompt_env\<lparr>userauth_attempt := (\<lambda>k. - 18)\<rparr>) 0 \<noteq> LIBSSH2_ERROR_EAGAIN
   \<and> ssh_processEvent (prompt_env\<lparr>userauth_attempt := (\<lambda>k. - 18)\<rparr>)
       (new_client\<lparr>m_sshState := Authentication, m_authenticationMethodes := [''publickey'']\<rparr>)
       = Some (Inl FirstOfEmptyList)"
  using sole_publickey_failure_reads_empty_list
    [of "new_client\<lparr>m_sshState := Authentication, m_authenticationMethodes := [''publickey'']\<rparr>"
        "prompt_env\<lparr>userauth_attempt := (\<lambda>k. - 18)\<rparr>"]
  by (simp add: LIBSSH2_ERROR_EAGAIN_def)

subsection \<open>Passes that block\<close>












lemma bump_simps [simp]:
  "bump d (Inl f) = Inl f"
  "bump d (Inr (c, k, s)) = Inr (c, d + k, s)"
  by (simp_all add: bump_def)













end
